theory Spec2Isabelle
  imports Main "HOL-Library.Sublist"
begin

section \<open>Data model of xsdgen/config.go\<close>

text \<open>
  The file \<^verbatim>\<open>xsdgen/config.go\<close> holds the \<^verbatim>\<open>Config\<close> of the code generator, the
  \<^verbatim>\<open>Option\<close> constructors that change it, and the two special-case passes for
  SOAP-encoded arrays. It reads types of the packages \<^verbatim>\<open>encoding/xml\<close>, \<^verbatim>\<open>go/ast\<close>,
  \<^verbatim>\<open>xsd\<close> and \<^verbatim>\<open>internal/gen\<close>; of each of them the model keeps the fields and
  operations that config.go reads or writes, and says so where it leaves something out.

  Strings are Go strings: lists of bytes.
\<close>

subsection \<open>encoding/xml\<close>

record Name =
  Space :: string
  Local :: string

definition Name_zero :: Name where
  "Name_zero = \<lparr>Space = [], Local = []\<rparr>"

record Attr =
  Attr_Name :: Name
  Attr_Value :: string

subsection \<open>Package xsd: types as objects on a heap\<close>

text \<open>
  An \<^verbatim>\<open>xsd.Type\<close> is an interface value: nil, a pointer to a \<^verbatim>\<open>ComplexType\<close>, or one
  of the other implementations (\<^verbatim>\<open>*SimpleType\<close>, \<^verbatim>\<open>Builtin\<close>), of which config.go only
  asks the name and the base. Complex types are shared, mutable objects:
  \<^verbatim>\<open>overrideWildcardType\<close> and \<^verbatim>\<open>parseSOAPArrayType\<close> write through the pointer. The
  model therefore keeps them in a heap indexed by addresses. A Go pointer that is not
  nil always points to an object, so the heap is a total function.
\<close>

type_synonym addr = nat

datatype xsd_Type =
  nil_Type
  | ComplexType_ptr addr
  | NonComplex_ptr addr

record Element =
  Element_Name :: Name
  Element_Type :: xsd_Type
  Wildcard :: bool

text \<open>
  An \<^verbatim>\<open>xsd.Attribute\<close> embeds the \<^verbatim>\<open>xmltree.Scope\<close> it was declared in; config.go
  uses the scope only through \<^verbatim>\<open>v.Resolve(qname)\<close>, so the scope is represented by
  that method.
\<close>

record Attribute =
  Attribute_Name :: Name
  Attribute_Attr :: "Attr list"
  Fixed :: string
  Resolve :: "string \<Rightarrow> Name"

record ComplexType =
  ComplexType_Name :: Name
  ComplexType_Base :: xsd_Type
  Elements :: "Element list"
  Attributes :: "Attribute list"

record NonComplexType =
  NonComplex_Name :: Name
  NonComplex_Base :: xsd_Type

record Heap =
  ComplexTypes :: "addr \<Rightarrow> ComplexType"
  NonComplexTypes :: "addr \<Rightarrow> NonComplexType"

text \<open>
  An \<^verbatim>\<open>xsd.Schema\<close> is used through \<^verbatim>\<open>s.FindType(name)\<close> alone, the lookup in the
  schema's type table; nil is the answer for a name that is not there.
\<close>

record Schema =
  FindType :: "Name \<Rightarrow> xsd_Type"

subsection \<open>go/ast and the draft declaration\<close>

text \<open>
  Of \<^verbatim>\<open>ast.Expr\<close> the model has the three node kinds config.go tells apart: a struct
  type with its field list, an \<^verbatim>\<open>ast.ArrayType\<close> (the node of both \<^verbatim>\<open>[]T\<close>, whose
  \<^verbatim>\<open>Len\<close> is nil, and \<^verbatim>\<open>[N]T\<close>), and everything else.
\<close>

datatype Expr =
  Ident string
  | StructType "Field list"
  | ArrayType "Expr option" Expr
  | OtherExpr string
and Field =
  Field (Field_Names: "string list") (Field_Type: Expr) (Field_Tag: "string option")

datatype FuncDecl = FuncDecl string

record spec =
  spec_name :: string
  spec_expr :: Expr
  spec_methods :: "FuncDecl list"

subsection \<open>Loggers and what they have been sent\<close>

text \<open>
  A \<^verbatim>\<open>Logger\<close> is an interface with one method, \<^verbatim>\<open>Printf\<close>. A logger is identified by
  a number, and the log is the list of \<^verbatim>\<open>Printf\<close> calls made so far, oldest first:
  the receiving logger, the format string and the arguments as they were passed.
\<close>

type_synonym Logger = nat

datatype Arg =
  Str string
  | TypeArg xsd_Type
  | ExprArg Expr
  | ErrArg string

type_synonym Log = "(Logger \<times> string \<times> Arg list) list"

subsection \<open>Function values held by a Config\<close>

text \<open>
  The fields of a \<^verbatim>\<open>Config\<close> hold function values, and every function value that
  config.go stores there is a closure built by one of its \<^verbatim>\<open>Option\<close> constructors. A
  closure is represented by the function literal it comes from together with the
  variables it captured; the variable \<^verbatim>\<open>cfg\<close> that some of them capture is the
  one Config of the model, read when the closure runs.

  A compiled \<^verbatim>\<open>*regexp.Regexp\<close> is represented by the two methods called on it, and
  the pair \<^verbatim>\<open>reg, err\<close> that \<^verbatim>\<open>regexp.Compile\<close> returns by a sum: \<open>Inl\<close> the error.
\<close>

record Regexp =
  ReplaceAllString :: "string \<Rightarrow> string \<Rightarrow> string"
  MatchString :: "string \<Rightarrow> bool"

datatype nameTransform =
  ReplaceAllNames_func "nameTransform option" string "string + Regexp" string
  | replaceAllNamesRegex_func "nameTransform option" Regexp string

datatype propertyFilter =
  IgnoreAttributes_func "string list"
  | IgnoreElements_func "string list"
  | OnlyTypes_func string "string + Regexp"

text \<open>
  \<^verbatim>\<open>ProcessTypes\<close> wraps a function supplied by the caller; the model never runs it and
  keeps only which function it is.
\<close>

datatype typeTransform =
  ProcessTypes_func "typeTransform option" nat
  | HandleSOAPArrayType_func "typeTransform option"

datatype specTransform =
  SOAPArrayAsSlice_func "specTransform option"

record Config =
  logger :: "Logger option"
  loglevel :: int
  pkgname :: string
  preprocessType :: "typeTransform option"
  postprocessType :: "specTransform option"
  filterAttributes :: "propertyFilter option"
  filterElements :: "propertyFilter option"
  filterTypes :: "propertyFilter option"
  typeNameTransform :: "nameTransform option"
  elemNameTransform :: "nameTransform option"
  attrNameTransform :: "nameTransform option"
  allNameTransform :: "nameTransform option"

definition Config_zero :: Config where
  "Config_zero = \<lparr>logger = None, loglevel = 0, pkgname = [],
     preprocessType = None, postprocessType = None,
     filterAttributes = None, filterElements = None, filterTypes = None,
     typeNameTransform = None, elemNameTransform = None, attrNameTransform = None,
     allNameTransform = None\<rparr>"

section \<open>Diagnostics\<close>

definition errorf :: "Config \<Rightarrow> string \<Rightarrow> Arg list \<Rightarrow> Log \<Rightarrow> Log" where
  "errorf cfg format v lg =
     (case logger cfg of None \<Rightarrow> lg | Some l \<Rightarrow> lg @ [(l, format, v)])"

definition logf :: "Config \<Rightarrow> string \<Rightarrow> Arg list \<Rightarrow> Log \<Rightarrow> Log" where
  "logf cfg format v lg =
     (case logger cfg of
        None \<Rightarrow> lg
      | Some l \<Rightarrow> if loglevel cfg > 0 then lg @ [(l, format, v)] else lg)"

definition debugf :: "Config \<Rightarrow> string \<Rightarrow> Arg list \<Rightarrow> Log \<Rightarrow> Log" where
  "debugf cfg format v lg =
     (case logger cfg of
        None \<Rightarrow> lg
      | Some l \<Rightarrow> if loglevel cfg > 3 then lg @ [(l, format, v)] else lg)"

section \<open>Options\<close>

text \<open>
  \<^verbatim>\<open>type Option func(*Config) Option\<close>: an Option changes the Config and returns the
  Option that undoes the change. Each constructor below is the closure returned by
  the Go function of the same name, with the variables it captured. The three
  unexported \<^verbatim>\<open>replace...\<close> constructors take a pointer \<open>p\<close> to a field of the
  Config; the pointer is represented by the field it points to.
\<close>

datatype filterField = filterAttributes_ptr | filterElements_ptr | filterTypes_ptr

datatype nameField =
  typeNameTransform_ptr | elemNameTransform_ptr | attrNameTransform_ptr | allNameTransform_ptr

fun get_filter :: "filterField \<Rightarrow> Config \<Rightarrow> propertyFilter option" where
  "get_filter filterAttributes_ptr cfg = filterAttributes cfg"
| "get_filter filterElements_ptr cfg = filterElements cfg"
| "get_filter filterTypes_ptr cfg = filterTypes cfg"

fun set_filter :: "filterField \<Rightarrow> propertyFilter option \<Rightarrow> Config \<Rightarrow> Config" where
  "set_filter filterAttributes_ptr fn cfg = cfg\<lparr>filterAttributes := fn\<rparr>"
| "set_filter filterElements_ptr fn cfg = cfg\<lparr>filterElements := fn\<rparr>"
| "set_filter filterTypes_ptr fn cfg = cfg\<lparr>filterTypes := fn\<rparr>"

fun get_nameTransform :: "nameField \<Rightarrow> Config \<Rightarrow> nameTransform option" where
  "get_nameTransform typeNameTransform_ptr cfg = typeNameTransform cfg"
| "get_nameTransform elemNameTransform_ptr cfg = elemNameTransform cfg"
| "get_nameTransform attrNameTransform_ptr cfg = attrNameTransform cfg"
| "get_nameTransform allNameTransform_ptr cfg = allNameTransform cfg"

fun set_nameTransform :: "nameField \<Rightarrow> nameTransform option \<Rightarrow> Config \<Rightarrow> Config" where
  "set_nameTransform typeNameTransform_ptr fn cfg = cfg\<lparr>typeNameTransform := fn\<rparr>"
| "set_nameTransform elemNameTransform_ptr fn cfg = cfg\<lparr>elemNameTransform := fn\<rparr>"
| "set_nameTransform attrNameTransform_ptr fn cfg = cfg\<lparr>attrNameTransform := fn\<rparr>"
| "set_nameTransform allNameTransform_ptr fn cfg = cfg\<lparr>allNameTransform := fn\<rparr>"

datatype Option =
  ErrorLog "Logger option" int
  | replacePropertyFilter filterField "propertyFilter option"
  | IgnoreAttributes "string list"
  | IgnoreElements "string list"
  | OnlyTypes_opt string "string + Regexp"
  | replaceNameTransform nameField "nameTransform option"
  | replacePreprocessType "typeTransform option"
  | replacePostprocessType "specTransform option"
  | PackageName string
  | ReplaceAllNames_opt string "string + Regexp" string
  | replaceAllNamesRegex Regexp string
  | ProcessTypes nat
  | HandleSOAPArrayType
  | SOAPArrayAsSlice

text \<open>
  \<^verbatim>\<open>OnlyTypes\<close> and \<^verbatim>\<open>ReplaceAllNames\<close> compile their pattern when the Option is
  made, before it is applied. \<^verbatim>\<open>regexp.Compile\<close> is the standard library's and is a
  parameter here. \<^verbatim>\<open>strings.Join(patterns, "|")\<close> is written out.
\<close>

fun Join :: "string list \<Rightarrow> string \<Rightarrow> string" where
  "Join [] sep = []"
| "Join [x] sep = x"
| "Join (x # y # ys) sep = x @ sep @ Join (y # ys) sep"

definition OnlyTypes :: "(string \<Rightarrow> string + Regexp) \<Rightarrow> string list \<Rightarrow> Option" where
  "OnlyTypes Compile patterns =
     (let pat = Join patterns ''|'' in OnlyTypes_opt pat (Compile pat))"

definition ReplaceAllNames :: "(string \<Rightarrow> string + Regexp) \<Rightarrow> string \<Rightarrow> string \<Rightarrow> Option" where
  "ReplaceAllNames Compile pat repl = ReplaceAllNames_opt pat (Compile pat) repl"

text \<open>
  Applying an Option: the new Config and the returned Option. The constructors that
  install a closure read the field first (\<^verbatim>\<open>prev := cfg.allNameTransform\<close>), build
  the closure around that value and hand it to the matching \<^verbatim>\<open>replace...\<close> Option,
  which they apply at once.
\<close>

definition run_replacePropertyFilter ::
  "filterField \<Rightarrow> propertyFilter option \<Rightarrow> Config \<Rightarrow> Config \<times> Option" where
  "run_replacePropertyFilter p fn cfg =
     (let prev = get_filter p cfg in (set_filter p fn cfg, replacePropertyFilter p prev))"

definition run_replaceNameTransform ::
  "nameField \<Rightarrow> nameTransform option \<Rightarrow> Config \<Rightarrow> Config \<times> Option" where
  "run_replaceNameTransform p fn cfg =
     (let prev = get_nameTransform p cfg
      in (set_nameTransform p fn cfg, replaceNameTransform p prev))"

definition run_replacePreprocessType ::
  "typeTransform option \<Rightarrow> Config \<Rightarrow> Config \<times> Option" where
  "run_replacePreprocessType fn cfg =
     (let prev = preprocessType cfg in (cfg\<lparr>preprocessType := fn\<rparr>, replacePreprocessType prev))"

definition run_replacePostprocessType ::
  "specTransform option \<Rightarrow> Config \<Rightarrow> Config \<times> Option" where
  "run_replacePostprocessType fn cfg =
     (let prev = postprocessType cfg
      in (cfg\<lparr>postprocessType := fn\<rparr>, replacePostprocessType prev))"

fun run_Option :: "Option \<Rightarrow> Config \<Rightarrow> Config \<times> Option" where
  "run_Option (ErrorLog l level) cfg =
     (let prevLogger = logger cfg; prevLevel = loglevel cfg
      in (cfg\<lparr>logger := l, loglevel := level\<rparr>, ErrorLog prevLogger prevLevel))"
| "run_Option (replacePropertyFilter p fn) cfg = run_replacePropertyFilter p fn cfg"
| "run_Option (IgnoreAttributes names) cfg =
     run_replacePropertyFilter filterAttributes_ptr (Some (IgnoreAttributes_func names)) cfg"
| "run_Option (IgnoreElements names) cfg =
     run_replacePropertyFilter filterElements_ptr (Some (IgnoreElements_func names)) cfg"
| "run_Option (OnlyTypes_opt pat reg) cfg =
     run_replacePropertyFilter filterTypes_ptr (Some (OnlyTypes_func pat reg)) cfg"
| "run_Option (replaceNameTransform p fn) cfg = run_replaceNameTransform p fn cfg"
| "run_Option (replacePreprocessType fn) cfg = run_replacePreprocessType fn cfg"
| "run_Option (replacePostprocessType fn) cfg = run_replacePostprocessType fn cfg"
| "run_Option (PackageName name) cfg =
     (let prev = pkgname cfg in (cfg\<lparr>pkgname := name\<rparr>, PackageName prev))"
| "run_Option (ReplaceAllNames_opt pat reg repl) cfg =
     (let prev = allNameTransform cfg
      in run_replaceNameTransform allNameTransform_ptr
           (Some (ReplaceAllNames_func prev pat reg repl)) cfg)"
| "run_Option (replaceAllNamesRegex reg repl) cfg =
     (let prev = allNameTransform cfg
      in run_replaceNameTransform allNameTransform_ptr
           (Some (replaceAllNamesRegex_func prev reg repl)) cfg)"
| "run_Option (ProcessTypes fn) cfg =
     (let prev = preprocessType cfg
      in run_replacePreprocessType (Some (ProcessTypes_func prev fn)) cfg)"
| "run_Option HandleSOAPArrayType cfg =
     (let prev = preprocessType cfg
      in run_replacePreprocessType (Some (HandleSOAPArrayType_func prev)) cfg)"
| "run_Option SOAPArrayAsSlice cfg =
     (let prev = postprocessType cfg
      in run_replacePostprocessType (Some (SOAPArrayAsSlice_func prev)) cfg)"

text \<open>
  \<^verbatim>\<open>func (cfg *Config) Option(opts ...Option) (previous Option)\<close>: the loop applies the
  options in order and keeps the value returned by the last one. \<open>previous\<close>
  starts as nil (\<open>None\<close>) and is still nil when \<open>opts\<close> is empty.
\<close>

fun Option_loop :: "Option list \<Rightarrow> Config \<Rightarrow> Option option \<Rightarrow> Config \<times> Option option" where
  "Option_loop [] cfg previous = (cfg, previous)"
| "Option_loop (opt # opts) cfg previous =
     (case run_Option opt cfg of (cfg', p) \<Rightarrow> Option_loop opts cfg' (Some p))"

definition Config_Option :: "Config \<Rightarrow> Option list \<Rightarrow> Config \<times> Option option" where
  "Config_Option cfg opts = Option_loop opts cfg None"

text \<open>
  Running a name transform. The closure of \<^verbatim>\<open>ReplaceAllNames\<close> starts from
  \<^verbatim>\<open>name.Local\<close>, or from the result of the closure it wrapped when there is one,
  and then applies its own substitution; with a pattern that did not compile it
  reports that through \<^verbatim>\<open>cfg.logf\<close> and returns the string as it is.
\<close>

fun run_nameTransform :: "Config \<Rightarrow> nameTransform \<Rightarrow> Name \<Rightarrow> Log \<Rightarrow> string \<times> Log" where
  "run_nameTransform cfg (ReplaceAllNames_func prev pat reg repl) name lg =
     (let (s, lg1) = (case prev of
                        None \<Rightarrow> (Local name, lg)
                      | Some f \<Rightarrow> run_nameTransform cfg f name lg)
      in case reg of
           Inl err \<Rightarrow> (s, logf cfg ''Invalid regex %q passed to ReplaceAllNames'' [Str pat] lg1)
         | Inr r \<Rightarrow> (ReplaceAllString r s repl, lg1))"
| "run_nameTransform cfg (replaceAllNamesRegex_func prev r repl) name lg =
     (let (s, lg1) = (case prev of
                        None \<Rightarrow> (Local name, lg)
                      | Some f \<Rightarrow> run_nameTransform cfg f name lg)
      in (ReplaceAllString r s repl, lg1))"

section \<open>Strings\<close>

text \<open>
  The functions of package \<^verbatim>\<open>strings\<close> that config.go calls. White space is what
  \<^verbatim>\<open>unicode.IsSpace\<close> accepts: the code points U+0009 to U+000D, U+0020, U+0085,
  U+00A0, U+1680, U+2000 to U+200A, U+2028, U+2029, U+202F, U+205F and U+3000, here
  in their UTF-8 encodings. None of these encodings starts with a continuation byte,
  so looking for one of them at a byte position finds exactly the white space runes
  that decoding the string finds.
\<close>

definition white_space :: "string list" where
  "white_space =
     [[CHR 0x09], [CHR 0x0A], [CHR 0x0B], [CHR 0x0C], [CHR 0x0D], [CHR 0x20],
      [CHR 0xC2, CHR 0x85], [CHR 0xC2, CHR 0xA0],
      [CHR 0xE1, CHR 0x9A, CHR 0x80],
      [CHR 0xE2, CHR 0x80, CHR 0x80], [CHR 0xE2, CHR 0x80, CHR 0x81],
      [CHR 0xE2, CHR 0x80, CHR 0x82], [CHR 0xE2, CHR 0x80, CHR 0x83],
      [CHR 0xE2, CHR 0x80, CHR 0x84], [CHR 0xE2, CHR 0x80, CHR 0x85],
      [CHR 0xE2, CHR 0x80, CHR 0x86], [CHR 0xE2, CHR 0x80, CHR 0x87],
      [CHR 0xE2, CHR 0x80, CHR 0x88], [CHR 0xE2, CHR 0x80, CHR 0x89],
      [CHR 0xE2, CHR 0x80, CHR 0x8A],
      [CHR 0xE2, CHR 0x80, CHR 0xA8], [CHR 0xE2, CHR 0x80, CHR 0xA9],
      [CHR 0xE2, CHR 0x80, CHR 0xAF],
      [CHR 0xE2, CHR 0x81, CHR 0x9F],
      [CHR 0xE3, CHR 0x80, CHR 0x80]]"

definition leading_space :: "string \<Rightarrow> string option" where
  "leading_space s = find (\<lambda>w. prefix w s) white_space"

definition trailing_space :: "string \<Rightarrow> string option" where
  "trailing_space s = find (\<lambda>w. suffix w s) white_space"

lemma leading_space_shorter:
  "leading_space s = Some w \<Longrightarrow> length (drop (length w) s) < length s"
proof -
  assume a: "leading_space s = Some w"
  then have "w \<in> set white_space" and p: "prefix w s"
    by (auto simp: leading_space_def find_Some_iff)
  then have "w \<noteq> []"
    by (auto simp: white_space_def)
  with p show ?thesis
    by (cases s) (auto simp: prefix_def)
qed

lemma trailing_space_shorter:
  "trailing_space s = Some w \<Longrightarrow> length (take (length s - length w) s) < length s"
proof -
  assume a: "trailing_space s = Some w"
  then have "w \<in> set white_space" and p: "suffix w s"
    by (auto simp: trailing_space_def find_Some_iff)
  then have "w \<noteq> []"
    by (auto simp: white_space_def)
  with p show ?thesis
    by (cases s) (auto simp: suffix_def)
qed

function TrimLeftSpace :: "string \<Rightarrow> string" where
  "TrimLeftSpace s =
     (case leading_space s of
        None \<Rightarrow> s
      | Some w \<Rightarrow> TrimLeftSpace (drop (length w) s))"
  by pat_completeness auto
termination
  by (relation "measure length") (auto dest: leading_space_shorter)

function TrimRightSpace :: "string \<Rightarrow> string" where
  "TrimRightSpace s =
     (case trailing_space s of
        None \<Rightarrow> s
      | Some w \<Rightarrow> TrimRightSpace (take (length s - length w) s))"
  by pat_completeness auto
termination
  by (relation "measure length") (auto dest: trailing_space_shorter)

definition TrimSpace :: "string \<Rightarrow> string" where
  "TrimSpace s = TrimRightSpace (TrimLeftSpace s)"

definition TrimSuffix :: "string \<Rightarrow> string \<Rightarrow> string" where
  "TrimSuffix s suf = (if suffix suf s then take (length s - length suf) s else s)"

text \<open>
  \<^verbatim>\<open>strings.Fields\<close>: the maximal pieces between runs of white space; \<open>cur\<close> is
  the piece being read.
\<close>

function Fields_from :: "string \<Rightarrow> string \<Rightarrow> string list" where
  "Fields_from cur s =
     (if s = [] then (if cur = [] then [] else [cur])
      else case leading_space s of
             Some w \<Rightarrow> (if cur = [] then [] else [cur]) @ Fields_from [] (drop (length w) s)
           | None \<Rightarrow> Fields_from (cur @ [hd s]) (tl s))"
  by pat_completeness auto
termination
  by (relation "measure (\<lambda>(cur, s). length s)") (auto dest: leading_space_shorter)

declare TrimLeftSpace.simps [simp del] TrimRightSpace.simps [simp del] Fields_from.simps [simp del]

definition Fields :: "string \<Rightarrow> string list" where
  "Fields s = Fields_from [] s"

text \<open>\<^verbatim>\<open>strings.Split\<close> for a separator of one byte, which is how config.go calls it.\<close>

fun Split :: "string \<Rightarrow> char \<Rightarrow> string list" where
  "Split [] sep = [[]]"
| "Split (c # cs) sep =
     (if c = sep then [] # Split cs sep
      else case Split cs sep of
             [] \<Rightarrow> [[c]]
           | part # parts \<Rightarrow> (c # part) # parts)"

section \<open>The SOAP array resolver\<close>

subsection \<open>Helpers of package xsd\<close>

text \<open>
  Modelled from the spec: \<^verbatim>\<open>xsd.Base\<close> is not part of config.go. It gives the
  base-type reference of a type, nil for a type with no base. config.go never asks
  for the base of nil.
\<close>

fun Base :: "Heap \<Rightarrow> xsd_Type \<Rightarrow> xsd_Type" where
  "Base h nil_Type = nil_Type"
| "Base h (ComplexType_ptr a) = ComplexType_Base (ComplexTypes h a)"
| "Base h (NonComplex_ptr a) = NonComplex_Base (NonComplexTypes h a)"

text \<open>
  Modelled from the spec: \<^verbatim>\<open>xsd.XMLName\<close> is not part of config.go. It gives the
  qualified name of a type. The nil interface value is no type and has no name; the
  model makes a call with it a failure, so that nothing proved below rests on what
  the helper does there.
\<close>

datatype panic = XMLName_of_nil

fun XMLName :: "Heap \<Rightarrow> xsd_Type \<Rightarrow> panic + Name" where
  "XMLName h nil_Type = Inl XMLName_of_nil"
| "XMLName h (ComplexType_ptr a) = Inr (ComplexType_Name (ComplexTypes h a))"
| "XMLName h (NonComplex_ptr a) = Inr (NonComplex_Name (NonComplexTypes h a))"

subsection \<open>overrideWildcardType\<close>

text \<open>
  The loop labelled \<^verbatim>\<open>Loop\<close>:
  \<^verbatim>\<open>for x := xsd.Type(t); xsd.Base(x) != nil; x = xsd.Base(x)\<close>.
  The condition is tested before the body, so the body runs for \<open>x\<close> only when
  \<open>x\<close> has a base. The loop ends in one of three ways: the body meets an \<open>x\<close>
  that is not a \<^verbatim>\<open>*ComplexType\<close>; the body finds a wildcard element, the first in the
  element list of \<open>x\<close>; or the condition fails. Base links may form a cycle, and
  then the loop does not end: \<open>walk\<close> is \<open>None\<close> there.
\<close>

datatype walk_result = NotComplex xsd_Type | Found Element | NotFound

partial_function (option) walk :: "Heap \<Rightarrow> xsd_Type \<Rightarrow> walk_result option" where
  "walk h x =
     (if Base h x = nil_Type then Some NotFound
      else case x of
             ComplexType_ptr c \<Rightarrow>
               (case find Wildcard (Elements (ComplexTypes h c)) of
                  Some v \<Rightarrow> Some (Found v)
                | None \<Rightarrow> walk h (Base h x))
           | _ \<Rightarrow> Some (NotComplex x))"

text \<open>
  The second loop, over \<^verbatim>\<open>t.Elements\<close>: every element marked as wildcard is
  overwritten in place with \<open>elem\<close>; the flag \<open>replaced\<close> records whether that
  happened.
\<close>

fun replace_wildcards :: "Element \<Rightarrow> Element list \<Rightarrow> Element list \<times> bool" where
  "replace_wildcards elem [] = ([], False)"
| "replace_wildcards elem (v # vs) =
     (case replace_wildcards elem vs of
        (vs', replaced) \<Rightarrow>
          if Wildcard v then (elem # vs', True) else (v # vs', replaced))"

text \<open>
  \<^verbatim>\<open>overrideWildcardType\<close> returns the pointer \<open>t\<close> it was given on every path; what
  changes is the object behind it. The result is \<open>None\<close> when the walk does not end,
  \<open>Inl\<close> when an argument of a log call cannot be computed, and otherwise the
  pointer returned, the heap and the log. The arguments of \<^verbatim>\<open>cfg.logf\<close> and
  \<^verbatim>\<open>cfg.debugf\<close> are computed whether or not anything is printed.
\<close>

definition overrideWildcardType ::
  "Config \<Rightarrow> addr \<Rightarrow> xsd_Type \<Rightarrow> Heap \<Rightarrow> Log \<Rightarrow> (panic + addr \<times> Heap \<times> Log) option" where
  "overrideWildcardType cfg t base h lg =
     (case walk h (ComplexType_ptr t) of
        None \<Rightarrow> None
      | Some (NotComplex x) \<Rightarrow>
          (case (XMLName h x, XMLName h base) of
             (Inr nx, Inr nb) \<Rightarrow>
               Some (Inr (t, h,
                 logf cfg ''warning: soap-encoded array %s extends %T %s''
                   [Str (Local nx), TypeArg base, Str (Local nb)] lg))
           | (Inl e, _) \<Rightarrow> Some (Inl e)
           | (_, Inl e) \<Rightarrow> Some (Inl e))
      | Some NotFound \<Rightarrow>
          Some (Inr (t, h,
            logf cfg ''could not override wildcard type for %s; not found in type hierarchy''
              [Str (Local (ComplexType_Name (ComplexTypes h t)))] lg))
      | Some (Found v) \<Rightarrow>
          (case (XMLName h (Element_Type v), XMLName h base) of
             (Inr ne, Inr nb) \<Rightarrow>
               (let lg1 = debugf cfg ''overriding wildcard element of %s type from %s to %s''
                            [Str (Local (ComplexType_Name (ComplexTypes h t))),
                             Str (Local ne), Str (Local nb)] lg;
                    elem = v\<lparr>Element_Type := base\<rparr>;
                    ct = ComplexTypes h t;
                    (es, replaced) = replace_wildcards elem (Elements ct);
                    es' = (if \<not> replaced then es @ [elem] else es)
                in Some (Inr (t, h\<lparr>ComplexTypes := (ComplexTypes h)(t := ct\<lparr>Elements := es'\<rparr>)\<rparr>,
                              lg1)))
           | (Inl e, _) \<Rightarrow> Some (Inl e)
           | (_, Inl e) \<Rightarrow> Some (Inl e)))"

subsection \<open>parseSOAPArrayType\<close>

definition wsdl :: string where
  "wsdl = ''http://schemas.xmlsoap.org/wsdl/''"

definition wsdl_arrayType :: Name where
  "wsdl_arrayType = \<lparr>Space = wsdl, Local = ''arrayType''\<rparr>"

text \<open>
  The loop over \<^verbatim>\<open>c.Attributes\<close>, with both of its \<^verbatim>\<open>break\<close>s: the first
  attribute whose local name is \<^verbatim>\<open>arrayType\<close> ends the outer loop, whatever the inner
  loop found in it. The result is \<open>itemType\<close> (the zero Name when nothing was
  found) and the attribute list after the assignment to
  \<^verbatim>\<open>c.Attributes[i].Fixed\<close>.
\<close>

fun scan_Attributes :: "Attribute list \<Rightarrow> Name \<times> Attribute list" where
  "scan_Attributes [] = (Name_zero, [])"
| "scan_Attributes (v # vs) =
     (if Local (Attribute_Name v) \<noteq> ''arrayType''
      then (case scan_Attributes vs of (itemType, vs') \<Rightarrow> (itemType, v # vs'))
      else case find (\<lambda>a. Attr_Name a = wsdl_arrayType) (Attribute_Attr v) of
             None \<Rightarrow> (Name_zero, v # vs)
           | Some a \<Rightarrow> (Resolve v (Attr_Value a), v\<lparr>Fixed := Attr_Value a\<rparr> # vs))"

definition parseSOAPArrayType ::
  "Config \<Rightarrow> Schema \<Rightarrow> xsd_Type \<Rightarrow> Heap \<Rightarrow> Log \<Rightarrow> (panic + xsd_Type \<times> Heap \<times> Log) option" where
  "parseSOAPArrayType cfg s t h lg =
     (case t of
        ComplexType_ptr c \<Rightarrow>
          (let (itemType, attrs) = scan_Attributes (Attributes (ComplexTypes h c));
               h1 = h\<lparr>ComplexTypes := (ComplexTypes h)(c := (ComplexTypes h c)\<lparr>Attributes := attrs\<rparr>)\<rparr>
           in if Local itemType = [] then Some (Inr (ComplexType_ptr c, h1, lg))
              else
                (let itemType1 = itemType\<lparr>Local := TrimSpace (Local itemType)\<rparr>;
                     itemType2 = itemType1\<lparr>Local := TrimSuffix (Local itemType1) ''[]''\<rparr>;
                     b = FindType s itemType2
                 in if b \<noteq> nil_Type
                    then (case overrideWildcardType cfg c b h1 lg of
                            None \<Rightarrow> None
                          | Some (Inl e) \<Rightarrow> Some (Inl e)
                          | Some (Inr (c', h2, lg2)) \<Rightarrow> Some (Inr (ComplexType_ptr c', h2, lg2)))
                    else Some (Inr (ComplexType_ptr c, h1,
                           logf cfg ''could not lookup item type %q in namespace %q''
                             [Str (Local itemType2), Str (Space itemType2)] lg))))
      | _ \<Rightarrow> Some (Inr (t, h, lg)))"

section \<open>The struct-to-slice flattener\<close>

text \<open>
  \<^verbatim>\<open>soapArrayToSlice\<close> calls three functions of package \<^verbatim>\<open>internal/gen\<close>, which is
  not part of config.go; they are parameters of the model. \<^verbatim>\<open>gen.TagKey\<close> reads a
  key of a field's tag, \<^verbatim>\<open>gen.ExprString\<close> prints an expression, and the builder
  \<^verbatim>\<open>gen.Func(name).Receiver(...).Args(...).Returns(...).Body(format, args...).Decl()\<close>
  turns the description of a function into a declaration or an error. The body
  templates are kept as their lines, without the indentation and the blank lines.
\<close>

record Function =
  Func_name :: string
  Func_Receiver :: string
  Func_Args :: "string list"
  Func_Returns :: "string list"
  Func_Body :: "string list"
  Func_Body_args :: "string list"

record Gen =
  TagKey :: "Field \<Rightarrow> string \<Rightarrow> string"
  ExprString :: "Expr \<Rightarrow> string"
  Decl :: "Function \<Rightarrow> string + FuncDecl"

definition UnmarshalXML_body :: "string list" where
  \<open>UnmarshalXML_body =
     [''var tok xml.Token'',
      ''var itemTag = xml.Name{%q, %q}'',
      ''for tok, err = d.Token(); err == nil; tok, err = d.Token() {'',
      ''if tok, ok := tok.(xml.StartElement); ok {'',
      ''var item %s'',
      ''if itemTag.Local != ",any" && itemTag != tok.Name {'',
      ''err = d.Skip()'',
      ''continue'',
      ''}'',
      ''if err = d.DecodeElement(&item, &tok); err == nil {'',
      ''*a = append(*a, item)'',
      ''}'',
      ''}'',
      ''if _, ok := tok.(xml.EndElement); ok {'',
      ''break'',
      ''}'',
      ''}'',
      ''return err'']\<close>

definition MarshalXML_body :: "string list" where
  \<open>MarshalXML_body =
     [''tag := xml.StartElement{Name: xml.Name{"", "item"}}'',
      ''for _, elt := range *a {'',
      ''if err := e.EncodeElement(elt, tag); err != nil {'',
      ''return err'',
      ''}'',
      ''}'',
      ''return nil'']\<close>

text \<open>
  The tag of the single field: \<^verbatim>\<open>xmltag\<close> starts as \<^verbatim>\<open>xml.Name{"", ",any"}\<close> and
  takes its local name, and with two or more words its namespace, from the part of
  the tag before the first comma.
\<close>

definition xmltag_of :: "string \<Rightarrow> Name" where
  "xmltag_of tag =
     (let xmltag = \<lparr>Space = [], Local = '',any''\<rparr>
      in if tag \<noteq> []
         then (case Split tag (CHR '','') of
                 [] \<Rightarrow> xmltag
               | part0 # _ \<Rightarrow>
                   (let flds = Fields part0;
                        xmltag1 = (if length flds > 0 then xmltag\<lparr>Local := last flds\<rparr>
                                   else xmltag);
                        xmltag2 = (if length flds > 1 then xmltag1\<lparr>Space := hd flds\<rparr>
                                   else xmltag1)
                    in xmltag2))
         else xmltag)"

definition unmarshal_Function :: "string \<Rightarrow> Name \<Rightarrow> string \<Rightarrow> Function" where
  "unmarshal_Function name xmltag itemType =
     \<lparr>Func_name = ''UnmarshalXML'',
      Func_Receiver = ''a *'' @ name,
      Func_Args = [''d *xml.Decoder'', ''start xml.StartElement''],
      Func_Returns = [''err error''],
      Func_Body = UnmarshalXML_body,
      Func_Body_args = [Space xmltag, Local xmltag, itemType]\<rparr>"

definition marshal_Function :: "string \<Rightarrow> Function" where
  "marshal_Function name =
     \<lparr>Func_name = ''MarshalXML'',
      Func_Receiver = ''a *'' @ name,
      Func_Args = [''e *xml.Encoder'', ''start xml.StartElement''],
      Func_Returns = [''error''],
      Func_Body = MarshalXML_body,
      Func_Body_args = []\<rparr>"

text \<open>
  \<^verbatim>\<open>soapArrayToSlice\<close> takes and returns the \<^verbatim>\<open>spec\<close> by value. The three early
  returns come first, before anything is logged; the struct type of a spec always
  carries a field list.
\<close>

definition flatten :: "Config \<Rightarrow> Gen \<Rightarrow> spec \<Rightarrow> Field \<Rightarrow> Expr \<Rightarrow> Expr \<Rightarrow> Log \<Rightarrow> spec \<times> Log" where
  "flatten cfg gen s f slice elt lg =
     (let lg1 = debugf cfg ''flattening single-element slice struct type %s to []%v''
                  [Str (spec_name s), ExprArg elt] lg;
          tag = TagKey gen f ''xml'';
          xmltag = xmltag_of tag;
          itemType = ExprString gen elt
      in case Decl gen (unmarshal_Function (spec_name s) xmltag itemType) of
           Inl err \<Rightarrow>
             (s, logf cfg ''error generating UnmarshalXML method of %s: %v''
                   [Str (spec_name s), ErrArg err] lg1)
         | Inr unmarshal \<Rightarrow>
             (case Decl gen (marshal_Function (spec_name s)) of
                Inl err \<Rightarrow>
                  (s, logf cfg ''error generating MarshalXML method of %s: %v''
                        [Str (spec_name s), ErrArg err] lg1)
              | Inr marshal \<Rightarrow>
                  (s\<lparr>spec_expr := slice,
                     spec_methods := (spec_methods s @ [marshal]) @ [unmarshal]\<rparr>, lg1)))"

definition soapArrayToSlice :: "Config \<Rightarrow> Gen \<Rightarrow> spec \<Rightarrow> Log \<Rightarrow> spec \<times> Log" where
  "soapArrayToSlice cfg gen s lg =
     (case spec_expr s of
        StructType flds \<Rightarrow>
          (if length flds \<noteq> 1 then (s, lg)
           else case Field_Type (hd flds) of
                  ArrayType len elt \<Rightarrow> flatten cfg gen s (hd flds) (ArrayType len elt) elt lg
                | _ \<Rightarrow> (s, lg))
      | _ \<Rightarrow> (s, lg))"

section \<open>Definitions used to state the properties\<close>

text \<open>
  The substitution of a name-transform rule, in the words of the doc comment of
  \<^verbatim>\<open>ReplaceAllNames\<close>: the replacement of all matches of the pattern, and no action
  for a pattern that is not a regular expression.
\<close>

definition rule_substitution :: "string + Regexp \<Rightarrow> string \<Rightarrow> string \<Rightarrow> string" where
  "rule_substitution reg repl s =
     (case reg of Inl err \<Rightarrow> s | Inr r \<Rightarrow> ReplaceAllString r s repl)"

text \<open>
  A stand-in for \<^verbatim>\<open>regexp.Compile\<close> on which the examples run: a pattern of one byte
  matches that byte, the empty pattern is refused.
\<close>

definition literal_Compile :: "string \<Rightarrow> string + Regexp" where
  "literal_Compile pat =
     (if pat = [] then Inl ''empty pattern''
      else Inr \<lparr>ReplaceAllString =
                  (\<lambda>src repl. concat (map (\<lambda>c. if [c] = pat then repl else [c]) src)),
               MatchString = (\<lambda>src. \<exists>c \<in> set src. [c] = pat)\<rparr>)"

text \<open>
  The base chain of a complex type, as a list: \<open>base_path h c ds\<close> says that
  \<open>ds\<close> are the complex types reached from \<open>c\<close> by following base links, one
  link at a time, in that order.
\<close>

fun base_path :: "Heap \<Rightarrow> addr \<Rightarrow> addr list \<Rightarrow> bool" where
  "base_path h c [] = True"
| "base_path h c (d # ds) =
     (ComplexType_Base (ComplexTypes h c) = ComplexType_ptr d \<and> base_path h d ds)"

text \<open>
  The example of the comment above \<^verbatim>\<open>parseSOAPArrayType\<close>: the complex type
  \<^verbatim>\<open>IntArray\<close> (address 0) restricts \<^verbatim>\<open>soapenc:Array\<close> (every other address), whose
  base is the built-in \<^verbatim>\<open>anyType\<close> (the other type 0, which has no base); the other
  type 1 is \<^verbatim>\<open>xs:int\<close>.
\<close>

definition xs :: string where "xs = ''http://www.w3.org/2001/XMLSchema''"
definition soapenc :: string where "soapenc = ''http://schemas.xmlsoap.org/soap/encoding/''"

definition any_Element :: Element where
  "any_Element = \<lparr>Element_Name = \<lparr>Space = [], Local = ''any''\<rparr>,
     Element_Type = NonComplex_ptr 0, Wildcard = True\<rparr>"

definition example_Resolve :: "string \<Rightarrow> Name" where
  "example_Resolve qname =
     (if take 3 qname = ''xs:'' then \<lparr>Space = xs, Local = drop 3 qname\<rparr>
      else \<lparr>Space = [], Local = qname\<rparr>)"

definition plain_arrayType :: Attribute where
  "plain_arrayType = \<lparr>Attribute_Name = \<lparr>Space = soapenc, Local = ''arrayType''\<rparr>,
     Attribute_Attr = [\<lparr>Attr_Name = \<lparr>Space = [], Local = ''name''\<rparr>, Attr_Value = ''arrayType''\<rparr>],
     Fixed = [], Resolve = example_Resolve\<rparr>"

definition int_arrayType :: Attribute where
  "int_arrayType = \<lparr>Attribute_Name = \<lparr>Space = soapenc, Local = ''arrayType''\<rparr>,
     Attribute_Attr = [\<lparr>Attr_Name = \<lparr>Space = [], Local = ''ref''\<rparr>, Attr_Value = ''soapenc:arrayType''\<rparr>,
                       \<lparr>Attr_Name = wsdl_arrayType, Attr_Value = ''xs:int[]''\<rparr>],
     Fixed = [], Resolve = example_Resolve\<rparr>"

definition Array :: ComplexType where
  "Array = \<lparr>ComplexType_Name = \<lparr>Space = soapenc, Local = ''Array''\<rparr>,
     ComplexType_Base = NonComplex_ptr 0, Elements = [any_Element],
     Attributes = [plain_arrayType]\<rparr>"

definition IntArray :: ComplexType where
  "IntArray = \<lparr>ComplexType_Name = \<lparr>Space = ''urn:example'', Local = ''IntArray''\<rparr>,
     ComplexType_Base = ComplexType_ptr 1, Elements = [],
     Attributes = [int_arrayType]\<rparr>"

definition example_Heap :: Heap where
  "example_Heap =
     \<lparr>ComplexTypes = (\<lambda>_. Array)(0 := IntArray),
      NonComplexTypes =
        (\<lambda>_. \<lparr>NonComplex_Name = \<lparr>Space = xs, Local = ''int''\<rparr>, NonComplex_Base = NonComplex_ptr 0\<rparr>)
        (0 := \<lparr>NonComplex_Name = \<lparr>Space = xs, Local = ''anyType''\<rparr>, NonComplex_Base = nil_Type\<rparr>)\<rparr>"



definition simple_Heap :: Heap where
  "simple_Heap =
     \<lparr>ComplexTypes = (\<lambda>_. Array\<lparr>ComplexType_Base := NonComplex_ptr 1, Elements := []\<rparr>),
      NonComplexTypes = NonComplexTypes example_Heap\<rparr>"

definition logging_Config :: Config where
  "logging_Config = Config_zero\<lparr>logger := Some 0, loglevel := 1\<rparr>"

definition overridden_Heap :: Heap where
  "overridden_Heap =
     example_Heap\<lparr>ComplexTypes := (ComplexTypes example_Heap)
       (0 := IntArray\<lparr>Elements := [any_Element\<lparr>Element_Type := NonComplex_ptr 1\<rparr>]\<rparr>)\<rparr>"

text \<open>
  Two schemas for the example: one whose type table holds \<^verbatim>\<open>xs:int\<close> and nothing
  else, and one with an empty table. \<open>fixed_Heap\<close> is the example after the
  assignment to \<^verbatim>\<open>Fixed\<close>, \<open>resolved_Heap\<close> after the override as well; in
  \<open>shadowed_Heap\<close> a type has two attributes named \<^verbatim>\<open>arrayType\<close>, of which only
  the second carries the \<^verbatim>\<open>wsdl:arrayType\<close> reference.
\<close>

definition example_Schema :: Schema where
  "example_Schema =
     \<lparr>FindType = (\<lambda>name. if name = \<lparr>Space = xs, Local = ''int''\<rparr> then NonComplex_ptr 1
                          else nil_Type)\<rparr>"

definition empty_Schema :: Schema where
  "empty_Schema = \<lparr>FindType = (\<lambda>name. nil_Type)\<rparr>"

definition fixed_Heap :: Heap where
  "fixed_Heap =
     example_Heap\<lparr>ComplexTypes := (ComplexTypes example_Heap)
       (0 := IntArray\<lparr>Attributes := [int_arrayType\<lparr>Fixed := ''xs:int[]''\<rparr>]\<rparr>)\<rparr>"

definition resolved_Heap :: Heap where
  "resolved_Heap =
     fixed_Heap\<lparr>ComplexTypes := (ComplexTypes fixed_Heap)
       (0 := (ComplexTypes fixed_Heap 0)
          \<lparr>Elements := [any_Element\<lparr>Element_Type := NonComplex_ptr 1\<rparr>]\<rparr>)\<rparr>"

definition shadowed_Heap :: Heap where
  "shadowed_Heap =
     \<lparr>ComplexTypes = (\<lambda>_. Array\<lparr>Attributes := [plain_arrayType, int_arrayType]\<rparr>),
      NonComplexTypes = NonComplexTypes example_Heap\<rparr>"

text \<open>
  Stand-ins for package \<^verbatim>\<open>gen\<close> on which the examples run: one whose \<^verbatim>\<open>Decl\<close>
  always succeeds, and one that fails on the \<^verbatim>\<open>MarshalXML\<close> method. The draft
  declarations are a struct with one slice field, one with two slice fields, one
  with a single field that is no slice, and one with no field.
\<close>

definition example_Gen :: Gen where
  "example_Gen =
     \<lparr>TagKey = (\<lambda>f key. case Field_Tag f of None \<Rightarrow> [] | Some tag \<Rightarrow> tag),
      ExprString = (\<lambda>e. case e of Ident name \<Rightarrow> name | _ \<Rightarrow> ''?''),
      Decl = (\<lambda>f. Inr (FuncDecl (Func_name f)))\<rparr>"

definition failing_Gen :: Gen where
  "failing_Gen =
     example_Gen\<lparr>Decl := (\<lambda>f. if Func_name f = ''MarshalXML'' then Inl ''expected statement''
                                else Inr (FuncDecl (Func_name f)))\<rparr>"

definition items_Field :: Field where
  "items_Field = Field [''Items''] (ArrayType None (Ident ''int'')) (Some '',any'')"

definition IntArray_spec :: spec where
  "IntArray_spec = \<lparr>spec_name = ''IntArray'', spec_expr = StructType [items_Field],
     spec_methods = []\<rparr>"

definition Pair_spec :: spec where
  "Pair_spec = \<lparr>spec_name = ''Pair'',
     spec_expr = StructType [items_Field, Field [''More''] (ArrayType None (Ident ''int'')) None],
     spec_methods = []\<rparr>"

definition Wrapper_spec :: spec where
  "Wrapper_spec = \<lparr>spec_name = ''Wrapper'',
     spec_expr = StructType [Field [''Value''] (Ident ''int'') None],
     spec_methods = []\<rparr>"

definition Empty_spec :: spec where
  "Empty_spec = \<lparr>spec_name = ''Empty'', spec_expr = StructType [], spec_methods = []\<rparr>"

section \<open>Properties of the Option system\<close>

lemma run_Option_inverse:
  "run_Option opt cfg = (cfg', undo) \<Longrightarrow> fst (run_Option undo cfg') = cfg"
proof (cases opt)
  case (replacePropertyFilter p fn)
  assume "run_Option opt cfg = (cfg', undo)"
  with replacePropertyFilter show ?thesis
    by (cases p) (auto simp: run_replacePropertyFilter_def)
next
  case (replaceNameTransform p fn)
  assume "run_Option opt cfg = (cfg', undo)"
  with replaceNameTransform show ?thesis
    by (cases p) (auto simp: run_replaceNameTransform_def)
qed (auto simp: run_replacePropertyFilter_def run_replaceNameTransform_def
      run_replacePreprocessType_def run_replacePostprocessType_def Let_def)

lemma Option_loop_snoc:
  "Option_loop (opts @ [opt]) cfg previous =
     (case run_Option opt (fst (Option_loop opts cfg previous)) of (cfg', p) \<Rightarrow> (cfg', Some p))"
  by (induction opts arbitrary: cfg previous) (auto split: prod.splits)

text \<open>
  C1, as the code has it. \<^verbatim>\<open>Config.Option\<close> keeps the Option returned by the last
  element of \<open>opts\<close> only, as its doc comment says (``revert the final option to its
  previous setting''). For every non-empty sequence of Options, applying the returned
  Option restores the Config to its state immediately before the last Option of the
  sequence was applied, all fields equal; the Options before the last one stay in
  effect.
\<close>

theorem Option_reverts_final_option:
  assumes "Config_Option cfg (opts @ [opt]) = (cfg', previous)"
  shows "\<exists>undo. previous = Some undo \<and>
           fst (run_Option undo cfg') = fst (Config_Option cfg opts)"
proof -
  obtain c p where r: "run_Option opt (fst (Config_Option cfg opts)) = (c, p)"
    by (cases "run_Option opt (fst (Config_Option cfg opts))")
  with assms have "cfg' = c" and "previous = Some p"
    by (auto simp: Config_Option_def Option_loop_snoc)
  with r show ?thesis
    by (auto dest: run_Option_inverse)
qed

theorem Option_reverts_final_option_witness:
  "\<exists>undo. snd (Config_Option Config_zero ([PackageName ''ws''] @ [ErrorLog (Some 0) 1])) = Some undo
     \<and> fst (run_Option undo
              (fst (Config_Option Config_zero ([PackageName ''ws''] @ [ErrorLog (Some 0) 1]))))
       = Config_zero\<lparr>pkgname := ''ws''\<rparr>"
  using Option_reverts_final_option [of Config_zero "[PackageName ''ws'']" "ErrorLog (Some 0) 1"
     "fst (Config_Option Config_zero ([PackageName ''ws''] @ [ErrorLog (Some 0) 1]))"
     "snd (Config_Option Config_zero ([PackageName ''ws''] @ [ErrorLog (Some 0) 1]))"]
  by (simp add: Config_Option_def Config_zero_def)

text \<open>
  C1 as stated fails: after \<^verbatim>\<open>cfg.Option(PackageName("ws"), ErrorLog(l, 1))\<close> on the
  zero Config the returned Option is \<^verbatim>\<open>ErrorLog(nil, 0)\<close>, and applying it leaves the
  package name \<^verbatim>\<open>ws\<close> where the Config before the sequence had the empty name.
\<close>

theorem Option_sequence_not_undone:
  "Config_Option Config_zero [PackageName ''ws'', ErrorLog (Some 0) 1]
     = (Config_zero\<lparr>logger := Some 0, loglevel := 1, pkgname := ''ws''\<rparr>, Some (ErrorLog None 0))
   \<and> pkgname (fst (run_Option (ErrorLog None 0)
        (Config_zero\<lparr>logger := Some 0, loglevel := 1, pkgname := ''ws''\<rparr>))) = ''ws''
   \<and> pkgname Config_zero = []"
  by (simp add: Config_Option_def Config_zero_def)

text \<open>
  C6. Installing rule A with \<^verbatim>\<open>ReplaceAllNames\<close> and then rule B leaves in
  \<^verbatim>\<open>cfg.allNameTransform\<close> a chain whose output, on every name, is B's substitution
  applied to A's substitution applied to the output of the chain that was installed
  before A, or to the local name when there was none.
\<close>

theorem ReplaceAllNames_installation_order:
  assumes "run_Option (ReplaceAllNames Compile patA replA) cfg0 = (cfg1, undoA)"
    and "run_Option (ReplaceAllNames Compile patB replB) cfg1 = (cfg2, undoB)"
  shows "\<exists>f. allNameTransform cfg2 = Some f \<and>
           fst (run_nameTransform cfg f name lg) =
             rule_substitution (Compile patB) replB
               (rule_substitution (Compile patA) replA
                  (case allNameTransform cfg0 of
                     None \<Rightarrow> Local name
                   | Some prev \<Rightarrow> fst (run_nameTransform cfg prev name lg)))"
  using assms
  by (auto simp: ReplaceAllNames_def run_replaceNameTransform_def rule_substitution_def Let_def
      split: option.splits sum.splits prod.splits)

theorem ReplaceAllNames_installation_order_witness:
  "\<exists>f. allNameTransform (fst (run_Option (ReplaceAllNames literal_Compile ''b'' ''c'')
            (fst (run_Option (ReplaceAllNames literal_Compile ''a'' ''b'') Config_zero)))) = Some f \<and>
       fst (run_nameTransform Config_zero f \<lparr>Space = [], Local = ''ab''\<rparr> []) = ''cc''"
  using ReplaceAllNames_installation_order [of literal_Compile "''a''" "''b''" Config_zero
      "fst (run_Option (ReplaceAllNames literal_Compile ''a'' ''b'') Config_zero)"
      "snd (run_Option (ReplaceAllNames literal_Compile ''a'' ''b'') Config_zero)"
      "''b''" "''c''"
      "fst (run_Option (ReplaceAllNames literal_Compile ''b'' ''c'')
            (fst (run_Option (ReplaceAllNames literal_Compile ''a'' ''b'') Config_zero)))"
      "snd (run_Option (ReplaceAllNames literal_Compile ''b'' ''c'')
            (fst (run_Option (ReplaceAllNames literal_Compile ''a'' ''b'') Config_zero)))"
      Config_zero "\<lparr>Space = [], Local = ''ab''\<rparr>" "[]"]
  by (simp add: ReplaceAllNames_def run_replaceNameTransform_def rule_substitution_def
      literal_Compile_def Config_zero_def Let_def)

section \<open>Properties of overrideWildcardType\<close>

lemma walk_step:
  "ComplexType_Base (ComplexTypes h c) = ComplexType_ptr d \<Longrightarrow>
   find Wildcard (Elements (ComplexTypes h c)) = None \<Longrightarrow>
   walk h (ComplexType_ptr c) = walk h (ComplexType_ptr d)"
  by (subst walk.simps) simp

lemma walk_along:
  "base_path h c ds \<Longrightarrow>
   \<forall>d \<in> set (butlast (c # ds)). find Wildcard (Elements (ComplexTypes h d)) = None \<Longrightarrow>
   walk h (ComplexType_ptr c) = walk h (ComplexType_ptr (last (c # ds)))"
proof (induction ds arbitrary: c)
  case Nil
  then show ?case by simp
next
  case (Cons d ds)
  from Cons.prems have "walk h (ComplexType_ptr c) = walk h (ComplexType_ptr d)"
    by (auto intro: walk_step)
  moreover from Cons.prems have "walk h (ComplexType_ptr d) = walk h (ComplexType_ptr (last (d # ds)))"
    by (intro Cons.IH) auto
  ultimately show ?case by simp
qed

lemma walk_Found:
  "ComplexType_Base (ComplexTypes h c) \<noteq> nil_Type \<Longrightarrow>
   find Wildcard (Elements (ComplexTypes h c)) = Some v \<Longrightarrow>
   walk h (ComplexType_ptr c) = Some (Found v)"
  by (subst walk.simps) simp

lemma walk_end:
  "\<forall>a. ComplexType_Base (ComplexTypes h c) \<noteq> ComplexType_ptr a \<Longrightarrow>
   find Wildcard (Elements (ComplexTypes h c)) = None \<Longrightarrow>
   walk h (ComplexType_ptr c) = Some NotFound \<or>
   (walk h (ComplexType_ptr c) = Some (NotComplex (ComplexType_Base (ComplexTypes h c))) \<and>
    ComplexType_Base (ComplexTypes h c) \<noteq> nil_Type)"
  apply (subst walk.simps)
  apply (subst (2) walk.simps)
  apply (cases "ComplexType_Base (ComplexTypes h c)")
    apply (simp_all add: walk.simps)
  done

lemma map_no_wildcard:
  "\<forall>e \<in> set es. \<not> Wildcard e \<Longrightarrow> map (\<lambda>e. if Wildcard e then elem else e) es = es"
  by (induction es) auto

lemma replace_wildcards_map:
  "replace_wildcards elem es =
     (map (\<lambda>e. if Wildcard e then elem else e) es, \<exists>e \<in> set es. Wildcard e)"
  by (induction es) auto

lemma example_override:
  "overrideWildcardType Config_zero 0 (NonComplex_ptr 1) example_Heap [] =
     Some (Inr (0, overridden_Heap, []))"
  by (simp add: overridden_Heap_def overrideWildcardType_def walk.simps example_Heap_def IntArray_def Array_def
      any_Element_def debugf_def Config_zero_def Let_def)

text \<open>
  What \<^verbatim>\<open>overrideWildcardType\<close> does when the walk finds a template. The complex
  types \<open>t # ds\<close> are linked by their bases, none before the last holds a wildcard
  element, and the last one holds one and has a base: then its first wildcard
  element \<open>v\<close> is the template, the template is retyped to \<open>base\<close>, and in the
  element list of \<open>t\<close> every wildcard element is replaced by the retyped template
  at its index, or, when that list has no wildcard element, the retyped template is
  appended. \<open>base\<close> and the type of the template are not nil: the debug message
  asks for their names.
\<close>

lemma overrideWildcardType_found:
  assumes "base_path h t ds"
    and "\<forall>d \<in> set (butlast (t # ds)). find Wildcard (Elements (ComplexTypes h d)) = None"
    and "find Wildcard (Elements (ComplexTypes h (last (t # ds)))) = Some v"
    and "ComplexType_Base (ComplexTypes h (last (t # ds))) \<noteq> nil_Type"
    and "base \<noteq> nil_Type" and "Element_Type v \<noteq> nil_Type"
  shows "\<exists>lg'. overrideWildcardType cfg t base h lg =
           Some (Inr (t,
             h\<lparr>ComplexTypes := (ComplexTypes h)
                 (t := (ComplexTypes h t)
                    \<lparr>Elements :=
                       (if \<exists>e \<in> set (Elements (ComplexTypes h t)). Wildcard e
                        then map (\<lambda>e. if Wildcard e then v\<lparr>Element_Type := base\<rparr> else e)
                               (Elements (ComplexTypes h t))
                        else Elements (ComplexTypes h t) @ [v\<lparr>Element_Type := base\<rparr>])\<rparr>)\<rparr>,
             lg'))"
proof -
  have "walk h (ComplexType_ptr t) = walk h (ComplexType_ptr (last (t # ds)))"
    using assms(1,2) by (rule walk_along)
  also have "\<dots> = Some (Found v)"
    using assms(4,3) by (rule walk_Found)
  finally have w: "walk h (ComplexType_ptr t) = Some (Found v)" .
  obtain nb where nb: "XMLName h base = Inr nb"
    using assms(5) by (cases base) auto
  obtain ne where ne: "XMLName h (Element_Type v) = Inr ne"
    using assms(6) by (cases "Element_Type v") auto
  show ?thesis
    by (auto simp: overrideWildcardType_def w nb ne replace_wildcards_map map_no_wildcard Let_def)
qed

lemma overrideWildcardType_found_example:
  "\<exists>lg'. overrideWildcardType Config_zero 0 (NonComplex_ptr 1) example_Heap [] =
     Some (Inr (0,
       example_Heap\<lparr>ComplexTypes := (ComplexTypes example_Heap)
         (0 := IntArray\<lparr>Elements := [any_Element\<lparr>Element_Type := NonComplex_ptr 1\<rparr>]\<rparr>)\<rparr>, lg'))"
  using overrideWildcardType_found [of example_Heap 0 "[1]" any_Element "NonComplex_ptr 1"
      Config_zero "[]"]
  by (simp add: example_Heap_def IntArray_def Array_def any_Element_def)

text \<open>
  What it does when the chain of complex types comes to a type with no base before
  any wildcard element was seen: the loop condition \<^verbatim>\<open>xsd.Base(x) != nil\<close> fails for
  that type before the body has looked at it, so the walk ends with nothing found,
  whatever the element list of that type holds.
\<close>

lemma overrideWildcardType_baseless:
  assumes "base_path h t ds"
    and "\<forall>d \<in> set (butlast (t # ds)). find Wildcard (Elements (ComplexTypes h d)) = None"
    and "ComplexType_Base (ComplexTypes h (last (t # ds))) = nil_Type"
  shows "overrideWildcardType cfg t base h lg =
           Some (Inr (t, h,
             logf cfg ''could not override wildcard type for %s; not found in type hierarchy''
               [Str (Local (ComplexType_Name (ComplexTypes h t)))] lg))"
proof -
  define c where "c = last (t # ds)"
  have "walk h (ComplexType_ptr t) = walk h (ComplexType_ptr c)"
    unfolding c_def using assms(1,2) by (rule walk_along)
  also have "\<dots> = Some NotFound"
    using assms(3) unfolding c_def by (subst walk.simps) simp
  finally show ?thesis
    by (simp add: overrideWildcardType_def)
qed


text \<open>
  C4. When the walk meets an ancestor that is not a complex type, or finds no
  wildcard element anywhere in the chain, the input type is returned unchanged and a
  diagnostic is logged. In the model: the complex types \<open>t # ds\<close> are linked by
  their bases, none of them holds a wildcard element, and the last of them has a
  base that is not a complex type, or no base. Then the call returns \<open>t\<close>, the
  heap is the one it was given, and the log is what one call of \<^verbatim>\<open>cfg.logf\<close>
  makes of it. (\<open>base\<close> is the item type that was looked up; it is not nil, and
  its name is part of the warning.)
\<close>

theorem overrideWildcardType_not_applicable:
  assumes "base_path h t ds"
    and "\<forall>d \<in> set (t # ds). find Wildcard (Elements (ComplexTypes h d)) = None"
    and "\<forall>a. ComplexType_Base (ComplexTypes h (last (t # ds))) \<noteq> ComplexType_ptr a"
    and "base \<noteq> nil_Type"
  shows "\<exists>format v. overrideWildcardType cfg t base h lg =
           Some (Inr (t, h, logf cfg format v lg))"
proof -
  define c where "c = last (t # ds)"
  have "\<forall>d \<in> set (butlast (t # ds)). find Wildcard (Elements (ComplexTypes h d)) = None"
    using assms(2) by (auto dest: in_set_butlastD)
  with assms(1) have a: "walk h (ComplexType_ptr t) = walk h (ComplexType_ptr c)"
    unfolding c_def by (rule walk_along)
  have "c \<in> set (t # ds)"
    unfolding c_def by (rule last_in_set) simp
  with assms(2) have n: "find Wildcard (Elements (ComplexTypes h c)) = None"
    by blast
  have e: "\<forall>a. ComplexType_Base (ComplexTypes h c) \<noteq> ComplexType_ptr a"
    using assms(3) unfolding c_def .
  obtain nb where nb: "XMLName h base = Inr nb"
    using assms(4) by (cases base) auto
  from walk_end [OF e n]
  consider "walk h (ComplexType_ptr t) = Some NotFound"
    | "walk h (ComplexType_ptr t) = Some (NotComplex (ComplexType_Base (ComplexTypes h c)))"
      and "ComplexType_Base (ComplexTypes h c) \<noteq> nil_Type"
    unfolding a by blast
  then show ?thesis
  proof cases
    case 1
    have "overrideWildcardType cfg t base h lg =
            Some (Inr (t, h,
              logf cfg ''could not override wildcard type for %s; not found in type hierarchy''
                [Str (Local (ComplexType_Name (ComplexTypes h t)))] lg))"
      by (simp add: overrideWildcardType_def 1)
    then show ?thesis
      by blast
  next
    case 2
    from 2(2) obtain nx where nx: "XMLName h (ComplexType_Base (ComplexTypes h c)) = Inr nx"
      by (cases "ComplexType_Base (ComplexTypes h c)") auto
    have "overrideWildcardType cfg t base h lg =
            Some (Inr (t, h,
              logf cfg ''warning: soap-encoded array %s extends %T %s''
                [Str (Local nx), TypeArg base, Str (Local nb)] lg))"
      by (simp add: overrideWildcardType_def 2(1) nx nb)
    then show ?thesis
      by blast
  qed
qed

theorem overrideWildcardType_not_applicable_witness:
  "\<exists>format v. overrideWildcardType logging_Config 0 (NonComplex_ptr 1) simple_Heap [] =
     Some (Inr (0, simple_Heap, [(0, format, v)]))"
  using overrideWildcardType_not_applicable [of simple_Heap 0 "[]" "NonComplex_ptr 1"
      logging_Config "[]"]
  by (simp add: simple_Heap_def Array_def logf_def logging_Config_def Config_zero_def)

text \<open>
  C10. A call that returns changes no object but the one \<open>t\<close> points to: every
  other complex type, and so every proper ancestor on which the template was found,
  is after the call what it was before, its element list and the types of its
  elements included; the other types are not touched either.
\<close>

theorem overrideWildcardType_frame:
  assumes "overrideWildcardType cfg t base h lg = Some (Inr (t', h', lg'))"
    and "a \<noteq> t"
  shows "ComplexTypes h' a = ComplexTypes h a \<and> NonComplexTypes h' = NonComplexTypes h"
  using assms
  by (auto simp: overrideWildcardType_def Let_def
      split: option.splits walk_result.splits sum.splits prod.splits)

theorem overrideWildcardType_frame_witness:
  "overrideWildcardType Config_zero 0 (NonComplex_ptr 1) example_Heap []
     = Some (Inr (0, overridden_Heap, []))
   \<and> ComplexTypes overridden_Heap 1 = ComplexTypes example_Heap 1
   \<and> Elements (ComplexTypes example_Heap 1) = [any_Element]
   \<and> Elements (ComplexTypes overridden_Heap 0) = [any_Element\<lparr>Element_Type := NonComplex_ptr 1\<rparr>]"
  using overrideWildcardType_frame [OF example_override, of 1] example_override
  by (simp add: overridden_Heap_def example_Heap_def Array_def)

section \<open>Properties of parseSOAPArrayType\<close>

lemma scan_Attributes_first:
  assumes "\<forall>u \<in> set pre. Local (Attribute_Name u) \<noteq> ''arrayType''"
    and "Local (Attribute_Name v) = ''arrayType''"
  shows "scan_Attributes (pre @ v # post) =
           (case find (\<lambda>a. Attr_Name a = wsdl_arrayType) (Attribute_Attr v) of
              None \<Rightarrow> (Name_zero, pre @ v # post)
            | Some a \<Rightarrow> (Resolve v (Attr_Value a), pre @ v\<lparr>Fixed := Attr_Value a\<rparr> # post))"
  using assms by (induction pre) (auto split: option.splits)

lemma normalize_int: "TrimSuffix (TrimSpace ''int[]'') ''[]'' = ''int''"
  by code_simp

lemma normalize_once: "TrimSuffix (TrimSpace '' int[][] '') ''[]'' = ''int[]''"
  by code_simp

lemma TrimSpace_no_space:
  "leading_space s = None \<Longrightarrow> trailing_space s = None \<Longrightarrow> TrimSpace s = s"
  by (simp add: TrimSpace_def TrimLeftSpace.simps TrimRightSpace.simps)

lemma TrimSuffix_append: "TrimSuffix (s @ suf) suf = s"
  by (auto simp: TrimSuffix_def suffix_def)

lemma example_Resolve_int: "Resolve int_arrayType ''xs:int[]'' = \<lparr>Space = xs, Local = ''int[]''\<rparr>"
  by (simp add: int_arrayType_def example_Resolve_def)

lemma find_wsdl_int:
  "find (\<lambda>a. Attr_Name a = wsdl_arrayType) (Attribute_Attr int_arrayType)
     = Some \<lparr>Attr_Name = wsdl_arrayType, Attr_Value = ''xs:int[]''\<rparr>"
  by (simp add: int_arrayType_def wsdl_arrayType_def)

lemma find_wsdl_plain:
  "find (\<lambda>a. Attr_Name a = wsdl_arrayType) (Attribute_Attr plain_arrayType) = None"
  by (simp add: plain_arrayType_def wsdl_arrayType_def)

lemma fixed_Heap_eq:
  "example_Heap\<lparr>ComplexTypes := (ComplexTypes example_Heap)
      (0 := (ComplexTypes example_Heap 0)
         \<lparr>Attributes := [] @ int_arrayType\<lparr>Fixed := Attr_Value \<lparr>Attr_Name = wsdl_arrayType, Attr_Value = ''xs:int[]''\<rparr>\<rparr> # []\<rparr>)\<rparr>
   = fixed_Heap"
  by (simp add: fixed_Heap_def example_Heap_def)

lemma fixed_override:
  "overrideWildcardType Config_zero 0 (NonComplex_ptr 1) fixed_Heap [] =
     Some (Inr (0, resolved_Heap, []))"
  by (simp add: resolved_Heap_def fixed_Heap_def overrideWildcardType_def walk.simps
      example_Heap_def IntArray_def Array_def any_Element_def debugf_def Config_zero_def Let_def)

text \<open>
  C9. \<^verbatim>\<open>parseSOAPArrayType\<close> inspects only the first attribute whose local name is
  \<^verbatim>\<open>arrayType\<close>. With \<open>v\<close> that attribute, \<open>pre\<close> the attributes before it
  and \<open>post\<close> the ones after it, the scan looks for the \<^verbatim>\<open>wsdl:arrayType\<close>
  sub-attribute in \<open>v\<close> alone and hands \<open>post\<close> on as it is, whatever it holds;
  and if \<open>v\<close> carries no such sub-attribute the call returns the type it was given,
  with heap and log unchanged.
\<close>

theorem parseSOAPArrayType_first_arrayType_only:
  assumes "Attributes (ComplexTypes h c) = pre @ v # post"
    and "\<forall>u \<in> set pre. Local (Attribute_Name u) \<noteq> ''arrayType''"
    and "Local (Attribute_Name v) = ''arrayType''"
  shows "scan_Attributes (Attributes (ComplexTypes h c)) =
           (case find (\<lambda>a. Attr_Name a = wsdl_arrayType) (Attribute_Attr v) of
              None \<Rightarrow> (Name_zero, pre @ v # post)
            | Some a \<Rightarrow> (Resolve v (Attr_Value a), pre @ v\<lparr>Fixed := Attr_Value a\<rparr> # post))
         \<and> (find (\<lambda>a. Attr_Name a = wsdl_arrayType) (Attribute_Attr v) = None \<longrightarrow>
              parseSOAPArrayType cfg s (ComplexType_ptr c) h lg
                = Some (Inr (ComplexType_ptr c, h, lg)))"
proof -
  have sc: "scan_Attributes (Attributes (ComplexTypes h c)) =
           (case find (\<lambda>a. Attr_Name a = wsdl_arrayType) (Attribute_Attr v) of
              None \<Rightarrow> (Name_zero, pre @ v # post)
            | Some a \<Rightarrow> (Resolve v (Attr_Value a), pre @ v\<lparr>Fixed := Attr_Value a\<rparr> # post))"
    unfolding assms(1) using assms(2,3) by (rule scan_Attributes_first)
  have "parseSOAPArrayType cfg s (ComplexType_ptr c) h lg = Some (Inr (ComplexType_ptr c, h, lg))"
    if "find (\<lambda>a. Attr_Name a = wsdl_arrayType) (Attribute_Attr v) = None"
  proof -
    from sc that assms(1)
    have "scan_Attributes (Attributes (ComplexTypes h c)) = (Name_zero, Attributes (ComplexTypes h c))"
      by simp
    then show ?thesis
      by (simp add: parseSOAPArrayType_def Name_zero_def)
  qed
  with sc show ?thesis
    by blast
qed

theorem parseSOAPArrayType_first_arrayType_only_witness:
  "Attributes (ComplexTypes shadowed_Heap 0) = [plain_arrayType, int_arrayType]
   \<and> scan_Attributes [plain_arrayType, int_arrayType] = (Name_zero, [plain_arrayType, int_arrayType])
   \<and> parseSOAPArrayType Config_zero example_Schema (ComplexType_ptr 0) shadowed_Heap []
       = Some (Inr (ComplexType_ptr 0, shadowed_Heap, []))"
  using parseSOAPArrayType_first_arrayType_only [where h = shadowed_Heap and c = 0
      and pre = "[]" and v = plain_arrayType and post = "[int_arrayType]" and cfg = Config_zero
      and s = example_Schema and lg = "[]"] find_wsdl_plain
  by (simp add: shadowed_Heap_def plain_arrayType_def)

text \<open>
  C3, as the code has it. The first attribute named \<^verbatim>\<open>arrayType\<close> carries a
  \<^verbatim>\<open>wsdl:arrayType\<close> reference, the reference resolves to a name \<open>n\<close> with a local
  part (so that the lookup is made), and the normalised name is not in the
  schema's type table. Then the call returns the pointer it was given, the type
  behind it changed in one place only: the \<^verbatim>\<open>Fixed\<close> field of that attribute now holds
  the literal value of the reference (line 382 runs before the lookup). Elements,
  base and the other attributes are as before, and the log is what exactly one call
  of \<^verbatim>\<open>cfg.logf\<close>, with the local name and the namespace, makes of it.
\<close>

theorem parseSOAPArrayType_unresolved:
  assumes "Attributes (ComplexTypes h c) = pre @ v # post"
    and "\<forall>u \<in> set pre. Local (Attribute_Name u) \<noteq> ''arrayType''"
    and "Local (Attribute_Name v) = ''arrayType''"
    and "find (\<lambda>a. Attr_Name a = wsdl_arrayType) (Attribute_Attr v) = Some a"
    and "Resolve v (Attr_Value a) = n" and "Local n \<noteq> []"
    and "FindType s (n\<lparr>Local := TrimSuffix (TrimSpace (Local n)) ''[]''\<rparr>) = nil_Type"
  shows "parseSOAPArrayType cfg s (ComplexType_ptr c) h lg =
           Some (Inr (ComplexType_ptr c,
             h\<lparr>ComplexTypes := (ComplexTypes h)
                 (c := (ComplexTypes h c)
                    \<lparr>Attributes := pre @ v\<lparr>Fixed := Attr_Value a\<rparr> # post\<rparr>)\<rparr>,
             logf cfg ''could not lookup item type %q in namespace %q''
               [Str (TrimSuffix (TrimSpace (Local n)) ''[]''), Str (Space n)] lg))"
proof -
  have "scan_Attributes (Attributes (ComplexTypes h c)) = (n, pre @ v\<lparr>Fixed := Attr_Value a\<rparr> # post)"
    using scan_Attributes_first [OF assms(2,3), of post] assms(1,4,5) by simp
  then show ?thesis
    using assms(6,7) by (simp add: parseSOAPArrayType_def Let_def)
qed

theorem parseSOAPArrayType_unresolved_witness:
  "parseSOAPArrayType logging_Config empty_Schema (ComplexType_ptr 0) example_Heap []
     = Some (Inr (ComplexType_ptr 0, fixed_Heap,
         [(0, ''could not lookup item type %q in namespace %q'', [Str ''int'', Str xs])]))"
  using parseSOAPArrayType_unresolved [where h = example_Heap and c = 0 and pre = "[]"
      and v = int_arrayType and post = "[]"
      and a = "\<lparr>Attr_Name = wsdl_arrayType, Attr_Value = ''xs:int[]''\<rparr>"
      and n = "\<lparr>Space = xs, Local = ''int[]''\<rparr>"
      and s = empty_Schema and cfg = logging_Config and lg = "[]"]
    find_wsdl_int example_Resolve_int normalize_int fixed_Heap_eq
  by (simp add: example_Heap_def IntArray_def empty_Schema_def logf_def logging_Config_def
      Config_zero_def)
    (simp add: int_arrayType_def)

text \<open>
  C3 as stated fails in that the type does not come back unchanged: for
  \<^verbatim>\<open>IntArray\<close> and a schema without \<^verbatim>\<open>xs:int\<close> the diagnostic is logged once, and
  the \<^verbatim>\<open>Fixed\<close> field of the attribute, empty before the call, is \<^verbatim>\<open>xs:int[]\<close> after
  it.
\<close>

theorem parseSOAPArrayType_unresolved_sets_Fixed:
  "FindType empty_Schema \<lparr>Space = xs, Local = ''int''\<rparr> = nil_Type
   \<and> parseSOAPArrayType logging_Config empty_Schema (ComplexType_ptr 0) example_Heap []
     = Some (Inr (ComplexType_ptr 0, fixed_Heap,
         [(0, ''could not lookup item type %q in namespace %q'', [Str ''int'', Str xs])]))
   \<and> map Fixed (Attributes (ComplexTypes example_Heap 0)) = [[]]
   \<and> map Fixed (Attributes (ComplexTypes fixed_Heap 0)) = [''xs:int[]'']"
  using normalize_int
  by (simp add: parseSOAPArrayType_def example_Heap_def fixed_Heap_def IntArray_def
      int_arrayType_def example_Resolve_def wsdl_arrayType_def empty_Schema_def logf_def
      logging_Config_def Config_zero_def Let_def)

text \<open>
  C5. Under the same conditions on the attributes, the type table is asked for one
  name, \<open>key\<close>: the resolved name with its local part first trimmed of surrounding
  white space and then stripped of one trailing \<^verbatim>\<open>[]\<close>. The outcome of the call is
  decided by that lookup; and a reference whose local part is \<^verbatim>\<open>int[]\<close> is looked
  up under the local name \<^verbatim>\<open>int\<close> in the same namespace.
\<close>

theorem parseSOAPArrayType_lookup:
  assumes "Attributes (ComplexTypes h c) = pre @ v # post"
    and "\<forall>u \<in> set pre. Local (Attribute_Name u) \<noteq> ''arrayType''"
    and "Local (Attribute_Name v) = ''arrayType''"
    and "find (\<lambda>a. Attr_Name a = wsdl_arrayType) (Attribute_Attr v) = Some a"
    and "Resolve v (Attr_Value a) = n" and "Local n \<noteq> []"
    and "key = n\<lparr>Local := TrimSuffix (TrimSpace (Local n)) ''[]''\<rparr>"
    and "h1 = h\<lparr>ComplexTypes := (ComplexTypes h)
                 (c := (ComplexTypes h c)
                    \<lparr>Attributes := pre @ v\<lparr>Fixed := Attr_Value a\<rparr> # post\<rparr>)\<rparr>"
  shows "parseSOAPArrayType cfg s (ComplexType_ptr c) h lg =
           (if FindType s key = nil_Type
            then Some (Inr (ComplexType_ptr c, h1,
                   logf cfg ''could not lookup item type %q in namespace %q''
                     [Str (Local key), Str (Space key)] lg))
            else (case overrideWildcardType cfg c (FindType s key) h1 lg of
                    None \<Rightarrow> None
                  | Some (Inl e) \<Rightarrow> Some (Inl e)
                  | Some (Inr (c', h2, lg2)) \<Rightarrow> Some (Inr (ComplexType_ptr c', h2, lg2))))
         \<and> (Local n = ''int[]'' \<longrightarrow> key = \<lparr>Space = Space n, Local = ''int''\<rparr>)"
proof -
  have "scan_Attributes (Attributes (ComplexTypes h c)) = (n, pre @ v\<lparr>Fixed := Attr_Value a\<rparr> # post)"
    using scan_Attributes_first [OF assms(2,3), of post] assms(1,4,5) by simp
  then have "parseSOAPArrayType cfg s (ComplexType_ptr c) h lg =
           (if FindType s key = nil_Type
            then Some (Inr (ComplexType_ptr c, h1,
                   logf cfg ''could not lookup item type %q in namespace %q''
                     [Str (Local key), Str (Space key)] lg))
            else (case overrideWildcardType cfg c (FindType s key) h1 lg of
                    None \<Rightarrow> None
                  | Some (Inl e) \<Rightarrow> Some (Inl e)
                  | Some (Inr (c', h2, lg2)) \<Rightarrow> Some (Inr (ComplexType_ptr c', h2, lg2))))"
    using assms(6,7,8) by (simp add: parseSOAPArrayType_def Let_def)
  moreover have "key = \<lparr>Space = Space n, Local = ''int''\<rparr>" if "Local n = ''int[]''"
    using that assms(7) normalize_int by simp
  ultimately show ?thesis
    by blast
qed

theorem parseSOAPArrayType_lookup_witness:
  "Resolve int_arrayType ''xs:int[]'' = \<lparr>Space = xs, Local = ''int[]''\<rparr>
   \<and> FindType example_Schema \<lparr>Space = xs, Local = ''int''\<rparr> = NonComplex_ptr 1
   \<and> FindType example_Schema \<lparr>Space = xs, Local = ''int[]''\<rparr> = nil_Type
   \<and> parseSOAPArrayType Config_zero example_Schema (ComplexType_ptr 0) example_Heap []
       = Some (Inr (ComplexType_ptr 0, resolved_Heap, []))
   \<and> TrimSuffix (TrimSpace '' int[][] '') ''[]'' = ''int[]''"
proof -
  have f: "FindType example_Schema \<lparr>Space = xs, Local = ''int''\<rparr> = NonComplex_ptr 1"
    and g: "FindType example_Schema \<lparr>Space = xs, Local = ''int[]''\<rparr> = nil_Type"
    by (simp_all add: example_Schema_def)
  have a1: "Attributes (ComplexTypes example_Heap 0) = [] @ int_arrayType # []"
    by (simp add: example_Heap_def IntArray_def)
  have a2: "\<forall>u\<in>set []. Local (Attribute_Name u) \<noteq> ''arrayType''"
    by simp
  have a3: "Local (Attribute_Name int_arrayType) = ''arrayType''"
    by (simp add: int_arrayType_def)
  have a5: "Resolve int_arrayType (Attr_Value \<lparr>Attr_Name = wsdl_arrayType, Attr_Value = ''xs:int[]''\<rparr>)
              = \<lparr>Space = xs, Local = ''int[]''\<rparr>"
    by (simp add: example_Resolve_int)
  have a6: "Local \<lparr>Space = xs, Local = ''int[]''\<rparr> \<noteq> []"
    by simp
  have a7: "\<lparr>Space = xs, Local = ''int''\<rparr> =
              \<lparr>Space = xs, Local = ''int[]''\<rparr>
                \<lparr>Local := TrimSuffix (TrimSpace (Local \<lparr>Space = xs, Local = ''int[]''\<rparr>)) ''[]''\<rparr>"
    by (simp add: normalize_int)
  note l = parseSOAPArrayType_lookup [OF a1 a2 a3 find_wsdl_int a5 a6 a7 fixed_Heap_eq [symmetric],
      where cfg = Config_zero and s = example_Schema and lg = "[]", THEN conjunct1]
  have "parseSOAPArrayType Config_zero example_Schema (ComplexType_ptr 0) example_Heap []
          = Some (Inr (ComplexType_ptr 0, resolved_Heap, []))"
    unfolding l f fixed_override by simp
  with f g example_Resolve_int normalize_once show ?thesis
    by blast
qed

section \<open>Properties of soapArrayToSlice\<close>

lemma soapArrayToSlice_flattens:
  "soapArrayToSlice Config_zero example_Gen IntArray_spec [] =
     (\<lparr>spec_name = ''IntArray'', spec_expr = ArrayType None (Ident ''int''),
       spec_methods = [FuncDecl ''MarshalXML'', FuncDecl ''UnmarshalXML'']\<rparr>, [])"
  by (simp add: soapArrayToSlice_def flatten_def IntArray_spec_def items_Field_def example_Gen_def
      unmarshal_Function_def marshal_Function_def debugf_def Config_zero_def Let_def)

lemma xmltag_of_examples:
  "xmltag_of [] = \<lparr>Space = [], Local = '',any''\<rparr>"
  "xmltag_of ''item,omitempty'' = \<lparr>Space = [], Local = ''item''\<rparr>"
  "xmltag_of ''urn:x item'' = \<lparr>Space = ''urn:x'', Local = ''item''\<rparr>"
  by code_simp+

text \<open>
  C7. \<^verbatim>\<open>soapArrayToSlice\<close> returns the spec it was given, and logs nothing, unless
  the expression of the spec is a struct with exactly one field and the type of that
  field is a sequence type, that is an \<^verbatim>\<open>*ast.ArrayType\<close>, the node by which go/ast
  represents \<^verbatim>\<open>[]T\<close>.
\<close>

theorem soapArrayToSlice_unchanged:
  assumes "\<not> (\<exists>f len elt. spec_expr s = StructType [f] \<and> Field_Type f = ArrayType len elt)"
  shows "soapArrayToSlice cfg gen s lg = (s, lg)"
proof (cases "spec_expr s")
  case (StructType flds)
  show ?thesis
  proof (cases "length flds = 1")
    case True
    then obtain f where f: "flds = [f]"
      by (cases flds) auto
    with assms StructType have "\<forall>len elt. Field_Type f \<noteq> ArrayType len elt"
      by auto
    with StructType f show ?thesis
      by (cases "Field_Type f") (auto simp: soapArrayToSlice_def)
  next
    case False
    with StructType show ?thesis
      by (simp add: soapArrayToSlice_def)
  qed
qed (simp_all add: soapArrayToSlice_def)

theorem soapArrayToSlice_unchanged_witness:
  "soapArrayToSlice logging_Config example_Gen Pair_spec [] = (Pair_spec, [])
   \<and> soapArrayToSlice logging_Config example_Gen Wrapper_spec [] = (Wrapper_spec, [])
   \<and> soapArrayToSlice logging_Config example_Gen Empty_spec [] = (Empty_spec, [])
   \<and> fst (soapArrayToSlice logging_Config example_Gen IntArray_spec []) \<noteq> IntArray_spec"
proof -
  have "soapArrayToSlice logging_Config example_Gen Pair_spec [] = (Pair_spec, [])"
    by (rule soapArrayToSlice_unchanged) (simp add: Pair_spec_def)
  moreover have "soapArrayToSlice logging_Config example_Gen Wrapper_spec [] = (Wrapper_spec, [])"
    by (rule soapArrayToSlice_unchanged) (simp add: Wrapper_spec_def)
  moreover have "soapArrayToSlice logging_Config example_Gen Empty_spec [] = (Empty_spec, [])"
    by (rule soapArrayToSlice_unchanged) (simp add: Empty_spec_def)
  moreover have "spec_expr (fst (soapArrayToSlice logging_Config example_Gen IntArray_spec []))
                   \<noteq> spec_expr IntArray_spec"
    by (simp add: soapArrayToSlice_def flatten_def IntArray_spec_def items_Field_def
        example_Gen_def Let_def)
  ultimately show ?thesis
    by auto
qed

text \<open>
  C8. The spec is a struct whose single field \<open>f\<close> is of a sequence type, so that
  the two methods are synthesised, \<open>u\<close> being the description of
  \<^verbatim>\<open>UnmarshalXML\<close>. If the synthesis of \<^verbatim>\<open>UnmarshalXML\<close> fails with \<open>err\<close>, or it
  succeeds and that of \<^verbatim>\<open>MarshalXML\<close> fails with \<open>err\<close>, the function returns the
  spec it was given, expression and methods untouched, and hands \<open>err\<close> to
  \<^verbatim>\<open>cfg.logf\<close> under the name of the method that failed, after the debug message
  that precedes the synthesis.
\<close>

theorem soapArrayToSlice_synthesis_fails:
  assumes "spec_expr s = StructType [f]" and "Field_Type f = ArrayType len elt"
    and "u = unmarshal_Function (spec_name s) (xmltag_of (TagKey gen f ''xml''))
               (ExprString gen elt)"
    and "Decl gen u = Inl err
         \<or> (\<exists>unmarshal. Decl gen u = Inr unmarshal
               \<and> Decl gen (marshal_Function (spec_name s)) = Inl err)"
  shows "soapArrayToSlice cfg gen s lg =
           (s, logf cfg
                 (case Decl gen u of
                    Inl e \<Rightarrow> ''error generating UnmarshalXML method of %s: %v''
                  | Inr unmarshal \<Rightarrow> ''error generating MarshalXML method of %s: %v'')
                 [Str (spec_name s), ErrArg err]
                 (debugf cfg ''flattening single-element slice struct type %s to []%v''
                    [Str (spec_name s), ExprArg elt] lg))"
  using assms
  by (auto simp: soapArrayToSlice_def flatten_def Let_def)

theorem soapArrayToSlice_synthesis_fails_witness:
  "Decl failing_Gen (marshal_Function ''IntArray'') = Inl ''expected statement''
   \<and> soapArrayToSlice logging_Config failing_Gen IntArray_spec [] =
       (IntArray_spec,
        [(0, ''error generating MarshalXML method of %s: %v'',
          [Str ''IntArray'', ErrArg ''expected statement''])])"
  using soapArrayToSlice_synthesis_fails [where s = IntArray_spec and f = items_Field
      and len = None and elt = "Ident ''int''" and gen = failing_Gen
      and u = "unmarshal_Function ''IntArray'' (xmltag_of (TagKey failing_Gen items_Field ''xml''))
                 (ExprString failing_Gen (Ident ''int''))"
      and err = "''expected statement''" and cfg = logging_Config and lg = "[]"]
  by (simp add: IntArray_spec_def items_Field_def failing_Gen_def example_Gen_def
      unmarshal_Function_def marshal_Function_def logf_def debugf_def logging_Config_def
      Config_zero_def)

end
